theory Spec2Isabelle
  imports Complex_Main
begin

section \<open>Strings\<close>

text \<open>
  A JavaScript string is a sequence of UTF-16 code units.  The source compares and
  searches strings that contain Thai and Latin-Extended letters, so a string is modelled
  as the list of its code units (natural numbers below 65536), and an ASCII literal is
  written \<open>js ''...''\<close>.
\<close>

type_synonym jsstring = "nat list"

definition js :: "string \<Rightarrow> jsstring" where
  "js s = map of_char s"

text \<open>
  \<open>String.prototype.toLowerCase\<close> is a function of the platform, computed from the
  Unicode case tables; it is not part of the repository.  Every handler that calls it
  takes it as the parameter \<open>toLowerCase\<close>, so what is proved of a handler holds for
  the platform's function, whatever letters it lowers.
\<close>

type_synonym lowering = "jsstring \<Rightarrow> jsstring"

text \<open>
  On a string whose cased letters are all Basic Latin, \<open>toLowerCase\<close> maps \<open>A\<close>..\<open>Z\<close>
  (65..90) to \<open>a\<close>..\<open>z\<close> and keeps every other code unit.  \<open>ascii_toLowerCase\<close> is that
  function; the statements that evaluate a handler on such a string use it.
\<close>

definition lower_unit :: "nat \<Rightarrow> nat" where
  "lower_unit c = (if 65 \<le> c \<and> c \<le> 90 then c + 32 else c)"

definition ascii_toLowerCase :: lowering where
  "ascii_toLowerCase s = map lower_unit s"

text \<open>
  \<open>s.includes(p)\<close>: \<open>p\<close> occurs in \<open>s\<close> as a contiguous run of code units.  (The
  method's own name is a keyword of Isabelle, hence the prefix.)
\<close>

definition startsWith :: "jsstring \<Rightarrow> jsstring \<Rightarrow> bool" where
  "startsWith s p = (take (length p) s = p)"

fun str_includes :: "jsstring \<Rightarrow> jsstring \<Rightarrow> bool" where
  "str_includes [] p = (p = [])"
| "str_includes (c # cs) p = (startsWith (c # cs) p \<or> str_includes cs p)"

text \<open>
  \<open>String.prototype.trim\<close> removes white space and line terminators from both ends:
  TAB, LF, VT, FF, CR, SPACE, NBSP, the Unicode space separators, LS, PS and the BOM.
\<close>

definition is_js_whitespace :: "nat \<Rightarrow> bool" where
  "is_js_whitespace c \<longleftrightarrow>
     c \<in> {9, 10, 11, 12, 13, 32, 160, 5760, 8232, 8233, 8239, 8287, 12288, 65279}
     \<or> (8192 \<le> c \<and> c \<le> 8202)"

definition trim :: "jsstring \<Rightarrow> jsstring" where
  "trim s = rev (dropWhile is_js_whitespace (rev (dropWhile is_js_whitespace s)))"

section \<open>Constants\<close>

definition BUFFER_SIZE :: nat where
  "BUFFER_SIZE = 2048"

definition SAMPLE_RATE_INPUT :: nat where
  "SAMPLE_RATE_INPUT = 16000"

definition SAMPLE_RATE_OUTPUT :: nat where
  "SAMPLE_RATE_OUTPUT = 24000"

text \<open>The notices passed to \<open>setError\<close>, as code units of the source's literals.\<close>

definition msg_no_internet :: jsstring where
  "msg_no_internet = js ''No internet connection.''"

definition msg_server_busy :: jsstring where
  \<comment> \<open>the Thai notice of \<open>onerror\<close> ending in \<open>(Server Busy)\<close>\<close>
  "msg_server_busy =
     [3619, 3632, 3610, 3610, 3585, 3635, 3621, 3633, 3591, 3607, 3635, 3591, 3634, 3609,
      3627, 3609, 3633, 3585, 32, 3585, 3619, 3640, 3603, 3634, 3621, 3629, 3591, 3651,
      3627, 3617, 3656, 3651, 3609, 3629, 3637, 3585, 3626, 3633, 3585, 3588, 3619, 3641,
      3656, 32] @ js ''(Server Busy)''"

definition msg_connection_error :: jsstring where
  \<comment> \<open>the Thai notice of \<open>onerror\<close> ending in \<open>(Connection Error)\<close>\<close>
  "msg_connection_error =
     [3648, 3585, 3636, 3604, 3586, 3657, 3629, 3612, 3636, 3604, 3614, 3621, 3634, 3604,
      3651, 3609, 3585, 3634, 3619, 3648, 3594, 3639, 3656, 3629, 3617, 3605, 3656, 3629,
      32] @ js ''(Connection Error)''"

definition msg_connect_busy :: jsstring where
  \<comment> \<open>the Thai notice of the \<open>catch\<close> block of \<open>connect\<close> ending in \<open>(Server Busy)\<close>\<close>
  "msg_connect_busy =
     [3619, 3632, 3610, 3610, 3585, 3635, 3621, 3633, 3591, 3607, 3635, 3591, 3634, 3609,
      3627, 3609, 3633, 3585, 32, 3585, 3619, 3640, 3603, 3634, 3621, 3629, 3591, 3651,
      3627, 3617, 3656, 32] @ js ''(Server Busy)''"

definition msg_connection_failed :: jsstring where
  \<comment> \<open>the Thai notice of the \<open>catch\<close> block of \<open>connect\<close> ending in \<open>(Connection Failed)\<close>\<close>
  "msg_connection_failed =
     [3585, 3634, 3619, 3648, 3594, 3639, 3656, 3629, 3617, 3605, 3656, 3629, 3621, 3657,
      3617, 3648, 3627, 3621, 3623, 32, 3585, 3619, 3640, 3603, 3634, 3605, 3619, 3623,
      3592, 3626, 3629, 3610, 3629, 3636, 3609, 3648, 3607, 3629, 3619, 3660, 3648, 3609,
      3655, 3605, 32] @ js ''(Connection Failed)''"

text \<open>The three stop phrases of \<open>handleTranscription\<close>: Thai script, Roman with dots, plain Roman.\<close>

definition stop_phrase_thai :: jsstring where
  "stop_phrase_thai = [3605, 3636, 3599, 3642, 3600, 3605, 3640]"

definition stop_phrase_roman :: jsstring where
  "stop_phrase_roman = [116, 105, 7789, 7789, 104, 97, 116, 117]"

definition stop_phrase_plain :: jsstring where
  "stop_phrase_plain = js ''titthatu''"

section \<open>Data model\<close>

datatype role = User | Model

text \<open>
  \<open>type Message = { id, role, text, isComplete }\<close>.  The id is \<open>Date.now().toString()\<close>;
  the model keeps the clock reading itself.
\<close>

record message =
  msg_id :: nat
  role :: role
  msg_text :: jsstring
  isComplete :: bool

text \<open>
  A scheduled \<open>AudioBufferSourceNode\<close>: the time it was started at and the duration of
  its buffer.  The JavaScript \<open>Set\<close> holds nodes by identity; the model keeps them in a
  list, in insertion order, so two nodes with equal times stay two entries.
\<close>

record playback_source =
  scheduledStart :: real
  durationSeconds :: real

text \<open>
  The part of a \<open>LiveServerMessage\<close> the handlers read.  \<open>audioData\<close> is
  \<open>serverContent.modelTurn.parts[0].inlineData.data\<close> after \<open>atob\<close>: \<open>None\<close> when the
  field is absent or the empty string, \<open>Some None\<close> when \<open>atob\<close> rejects the text, and
  \<open>Some (Some bytes)\<close> otherwise.
\<close>

record server_message =
  inputTranscription :: "jsstring option"
  outputTranscription :: "jsstring option"
  turnComplete :: bool
  interrupted :: bool
  audioData :: "nat list option option"

text \<open>
  The component state: the React state variables and the refs of \<open>App\<close>.  Numbers are
  modelled as real numbers; \<open>volume\<close> is \<open>None\<close> for NaN.  A ref to a platform object is
  kept as a handle or as the flag "is not null".  \<open>stopped\<close> logs the sources on which
  \<open>stop()\<close> was called, \<open>speakingTimers\<close> counts the pending
  \<open>setTimeout(() => setIsSpeaking(false), 100)\<close> timers, \<open>sent\<close> logs the frames given
  to \<open>session.sendRealtimeInput\<close>, and \<open>pendingSends\<close> holds the continuations
  registered with \<open>sessionPromise.then\<close>, each with the \<open>sessionId\<close> of its closure.
\<close>

record state =
  isConnected :: bool
  isSpeaking :: bool
  isBusy :: bool
  messages :: "message list"
  error :: "jsstring option"
  volume :: "real option"
  audioContextInput :: bool
  audioContextOutput :: bool
  processorRef :: bool
  sourceRef :: bool
  nextStartTime :: real
  audioSources :: "playback_source list"
  streamRef :: "nat option"
  activeSessionRef :: "nat option"
  currentSessionIdRef :: nat
  currentInputTrans :: jsstring
  currentOutputTrans :: jsstring
  stopped :: "playback_source list"
  speakingTimers :: nat
  pendingSends :: "(nat \<times> int list) list"
  sent :: "int list list"

definition initial_state :: state where
  "initial_state =
     \<lparr>isConnected = False, isSpeaking = False, isBusy = False, messages = [],
      error = None, volume = Some 0, audioContextInput = False,
      audioContextOutput = False, processorRef = False, sourceRef = False,
      nextStartTime = 0, audioSources = [], streamRef = None, activeSessionRef = None,
      currentSessionIdRef = 0, currentInputTrans = [], currentOutputTrans = [],
      stopped = [], speakingTimers = 0, pendingSends = [], sent = []\<rparr>"

section \<open>Transcript aggregation\<close>

text \<open>
  \<open>updateMessageState\<close>: the updater given to \<open>setMessages\<close>.  It looks at the last
  message only.
\<close>

definition updateMessageState ::
  "nat \<Rightarrow> role \<Rightarrow> jsstring \<Rightarrow> bool \<Rightarrow> message list \<Rightarrow> message list" where
  "updateMessageState now r txt isc prev =
     (if prev \<noteq> [] \<and> role (last prev) = r \<and> \<not> isComplete (last prev)
      then butlast prev @ [(last prev)\<lparr>msg_text := txt, isComplete := isc\<rparr>]
      else if length (trim txt) > 0
      then prev @ [\<lparr>msg_id = now, role = r, msg_text = txt, isComplete = isc\<rparr>]
      else prev)"

text \<open>The three statements of the stop-phrase branch and the five of the \<open>interrupted\<close> branch.\<close>

definition stop_all_sources :: "state \<Rightarrow> state" where
  "stop_all_sources s = s\<lparr>stopped := stopped s @ audioSources s, audioSources := []\<rparr>"

definition local_stop :: "state \<Rightarrow> state" where
  "local_stop s = (stop_all_sources s)\<lparr>isSpeaking := False\<rparr>"

definition on_interrupted :: "state \<Rightarrow> state" where
  "on_interrupted s =
     (stop_all_sources s)\<lparr>nextStartTime := 0, currentOutputTrans := [], isSpeaking := False\<rparr>"

definition is_stop_command :: "lowering \<Rightarrow> jsstring \<Rightarrow> bool" where
  "is_stop_command toLowerCase acc =
     (let lowerText = toLowerCase acc
      in str_includes lowerText stop_phrase_thai \<or> str_includes lowerText stop_phrase_roman
         \<or> str_includes lowerText stop_phrase_plain)"

definition handle_input :: "lowering \<Rightarrow> nat \<Rightarrow> jsstring \<Rightarrow> state \<Rightarrow> state" where
  "handle_input toLowerCase now txt s =
     (let s1 = s\<lparr>currentInputTrans := currentInputTrans s @ txt\<rparr>;
          s2 = s1\<lparr>messages := updateMessageState now User (currentInputTrans s1) False (messages s1)\<rparr>
      in if is_stop_command toLowerCase (currentInputTrans s2) then local_stop s2 else s2)"

definition handle_output :: "nat \<Rightarrow> jsstring \<Rightarrow> state \<Rightarrow> state" where
  "handle_output now txt s =
     (let s1 = s\<lparr>currentOutputTrans := currentOutputTrans s @ txt\<rparr>
      in s1\<lparr>messages := updateMessageState now Model (currentOutputTrans s1) False (messages s1)\<rparr>)"

definition handle_turn_complete :: "nat \<Rightarrow> state \<Rightarrow> state" where
  "handle_turn_complete now s =
     (let s1 = (if currentInputTrans s \<noteq> []
                then s\<lparr>messages := updateMessageState now User (currentInputTrans s) True (messages s),
                       currentInputTrans := []\<rparr>
                else s)
      in if currentOutputTrans s1 \<noteq> []
         then s1\<lparr>messages := updateMessageState now Model (currentOutputTrans s1) True (messages s1),
                 currentOutputTrans := []\<rparr>
         else s1)"

definition handleTranscription :: "lowering \<Rightarrow> nat \<Rightarrow> server_message \<Rightarrow> state \<Rightarrow> state" where
  "handleTranscription toLowerCase now m s =
     (let s1 = (case inputTranscription m of Some txt \<Rightarrow> handle_input toLowerCase now txt s | None \<Rightarrow> s);
          s2 = (case outputTranscription m of Some txt \<Rightarrow> handle_output now txt s1 | None \<Rightarrow> s1)
      in if turnComplete m then handle_turn_complete now s2 else s2)"

section \<open>Audio playback\<close>

text \<open>
  \<open>decodeAudioData\<close> builds an \<open>Int16Array\<close> over the bytes (a RangeError when their
  number is odd) and an \<open>AudioBuffer\<close> of one channel with half as many frames (an error
  when that is zero) at \<open>SAMPLE_RATE_OUTPUT\<close>.  The scheduler reads only the buffer's
  duration, frames divided by sample rate, so the model returns that.
\<close>

definition decodeAudioData :: "nat list \<Rightarrow> real option" where
  "decodeAudioData bytes =
     (if odd (length bytes) \<or> length bytes div 2 = 0 then None
      else Some (real (length bytes div 2) / real SAMPLE_RATE_OUTPUT))"

text \<open>
  \<open>playAudioChunk\<close> runs up to its \<open>await\<close> inside the call (\<open>playAudioChunk_begin\<close>) and
  resumes in a microtask (\<open>playAudioChunk_resume\<close>), after the caller's remaining
  statements.  Every thrown error ends in the \<open>catch\<close> that only logs.
\<close>

definition playAudioChunk_begin :: "state \<Rightarrow> state" where
  "playAudioChunk_begin s = s\<lparr>isSpeaking := True\<rparr>"

definition playAudioChunk_resume :: "real \<Rightarrow> nat list option \<Rightarrow> state \<Rightarrow> state" where
  "playAudioChunk_resume currentTime chunk s =
     (case chunk of
        None \<Rightarrow> s
      | Some bytes \<Rightarrow>
          (case decodeAudioData bytes of
             None \<Rightarrow> s
           | Some duration \<Rightarrow>
               (let start = max currentTime (nextStartTime s)
                in s\<lparr>nextStartTime := start + duration,
                     audioSources := audioSources s @
                       [\<lparr>scheduledStart = start, durationSeconds = duration\<rparr>]\<rparr>)))"

definition playAudioChunk :: "real \<Rightarrow> nat list option \<Rightarrow> state \<Rightarrow> state" where
  "playAudioChunk currentTime chunk s =
     playAudioChunk_resume currentTime chunk (playAudioChunk_begin s)"

text \<open>\<open>source.onended\<close> and the timer it sets; neither reads the session id.\<close>

definition source_onended :: "playback_source \<Rightarrow> state \<Rightarrow> state" where
  "source_onended src s =
     (let s1 = s\<lparr>audioSources := remove1 src (audioSources s)\<rparr>
      in if audioSources s1 = [] then s1\<lparr>speakingTimers := speakingTimers s1 + 1\<rparr> else s1)"

definition speaking_timeout :: "state \<Rightarrow> state" where
  "speaking_timeout s =
     (if speakingTimers s = 0 then s
      else s\<lparr>speakingTimers := speakingTimers s - 1, isSpeaking := False\<rparr>)"

section \<open>Audio capture\<close>

text \<open>
  The volume meter of \<open>onaudioprocess\<close>: the loop sums the squares, then
  \<open>Math.min(Math.sqrt(sum / length) * 10, 1)\<close>.  On an empty buffer JavaScript computes
  \<open>0 / 0\<close>, which is NaN (\<open>None\<close>).
\<close>

definition sum_squares :: "real list \<Rightarrow> real" where
  "sum_squares inputData = foldl (\<lambda>acc x. acc + x * x) 0 inputData"

definition volume_meter :: "real list \<Rightarrow> real option" where
  "volume_meter inputData =
     (if inputData = [] then None
      else Some (min (sqrt (sum_squares inputData / real (length inputData)) * 10) 1))"

text \<open>
  Storing a number into an \<open>Int16Array\<close>: truncate towards zero, then wrap modulo
  \<open>2^16\<close> into the signed range.
\<close>

definition to_int16 :: "real \<Rightarrow> int" where
  "to_int16 x =
     (let n = (if 0 \<le> x then \<lfloor>x\<rfloor> else \<lceil>x\<rceil>); m = n mod 65536
      in if 32768 \<le> m then m - 65536 else m)"

text \<open>
  The continuation given to \<open>sessionPromise.then\<close>, and its delivery: continuations of
  one promise run in the order they were registered; a rejected promise runs none of
  them (\<open>.catch(() => {})\<close>).
\<close>

definition send_continuation :: "nat \<Rightarrow> int list \<Rightarrow> state \<Rightarrow> state" where
  "send_continuation sessionId frame s =
     (if currentSessionIdRef s = sessionId then s\<lparr>sent := sent s @ [frame]\<rparr> else s)"

definition run_pending_send :: "bool \<Rightarrow> state \<Rightarrow> state" where
  "run_pending_send resolved s =
     (case pendingSends s of
        [] \<Rightarrow> s
      | (sessionId, frame) # rest \<Rightarrow>
          (let s1 = s\<lparr>pendingSends := rest\<rparr>
           in if resolved then send_continuation sessionId frame s1 else s1))"

text \<open>
  \<open>scriptProcessor.onaudioprocess\<close>.  The frame is the list of 16-bit samples; its
  base64 text is non-empty exactly when the frame is.
\<close>

definition onaudioprocess :: "nat \<Rightarrow> bool \<Rightarrow> real list \<Rightarrow> state \<Rightarrow> state" where
  "onaudioprocess sessionId onLine inputData s =
     (if currentSessionIdRef s \<noteq> sessionId then s
      else if length (audioSources s) > 0 then s
      else
        (let s1 = s\<lparr>volume := volume_meter inputData\<rparr>;
             int16 = map (\<lambda>x. to_int16 (x * 32768)) inputData
         in if int16 \<noteq> [] \<and> onLine
            then s1\<lparr>pendingSends := pendingSends s1 @ [(sessionId, int16)]\<rparr>
            else s1))"

section \<open>Transport callbacks\<close>

definition onopen :: "nat \<Rightarrow> state \<Rightarrow> state" where
  "onopen sessionId s =
     (if currentSessionIdRef s \<noteq> sessionId then s
      else
        (let s1 = s\<lparr>isConnected := True, messages := []\<rparr>
         in if \<not> audioContextInput s1 then s1
            else s1\<lparr>sourceRef := True, processorRef := True\<rparr>))"

text \<open>
  \<open>onmessage\<close>: the transcript, then the synchronous part of \<open>playAudioChunk\<close>, then the
  \<open>interrupted\<close> branch, and last the resumption of \<open>playAudioChunk\<close>, which reads
  \<open>ctx.currentTime\<close>.  The resumption is a microtask of the same task, so no other
  handler runs in between.
\<close>

definition onmessage :: "lowering \<Rightarrow> nat \<Rightarrow> nat \<Rightarrow> real \<Rightarrow> server_message \<Rightarrow> state \<Rightarrow> state" where
  "onmessage toLowerCase sessionId now currentTime m s =
     (if currentSessionIdRef s \<noteq> sessionId then s
      else
        (let s1 = handleTranscription toLowerCase now m s;
             play = (audioData m \<noteq> None \<and> audioContextOutput s1);
             s2 = (if play then playAudioChunk_begin s1 else s1);
             s3 = (if interrupted m then on_interrupted s2 else s2)
         in if play then playAudioChunk_resume currentTime (the (audioData m)) s3 else s3))"

definition onclose :: "nat \<Rightarrow> state \<Rightarrow> state" where
  "onclose sessionId s =
     (if currentSessionIdRef s \<noteq> sessionId then s
      else s\<lparr>isConnected := False, isSpeaking := False, activeSessionRef := None\<rparr>)"

text \<open>
  The value given to \<open>onerror\<close>, by what the handler reads of it: an \<open>Error\<close> with its
  message; another object with a \<open>message\<close> property, by \<open>String(e.message)\<close>; an object
  without one, by the result of \<open>JSON.stringify(e)\<close> (\<open>None\<close> when it throws or yields
  nothing) and by \<open>String(e)\<close>; anything else by \<open>String(e)\<close>.
\<close>

datatype error_signal =
  ErrorInstance jsstring
  | ObjectWithMessage jsstring
  | PlainObject "jsstring option" jsstring
  | Primitive jsstring

fun extract_errMsg :: "error_signal \<Rightarrow> jsstring" where
  "extract_errMsg (ErrorInstance m) = m"
| "extract_errMsg (ObjectWithMessage m) = m"
| "extract_errMsg (PlainObject (Some json) str) =
     (if json \<noteq> [] \<and> json \<noteq> js ''{}'' then json else str)"
| "extract_errMsg (PlainObject None str) = str"
| "extract_errMsg (Primitive str) = str"

definition reset_connection :: "state \<Rightarrow> state" where
  "reset_connection s = s\<lparr>isConnected := False, isSpeaking := False, activeSessionRef := None\<rparr>"

definition onerror :: "lowering \<Rightarrow> nat \<Rightarrow> error_signal \<Rightarrow> state \<Rightarrow> state" where
  "onerror toLowerCase sessionId e s =
     (if currentSessionIdRef s \<noteq> sessionId then s
      else
        (let errMsg = extract_errMsg e; lowerErr = toLowerCase errMsg
         in if str_includes lowerErr (js ''service is currently unavailable'')
               \<or> str_includes lowerErr (js ''503'')
            then reset_connection (s\<lparr>error := Some msg_server_busy\<rparr>)
            else if str_includes lowerErr (js ''network error'')
               \<or> str_includes lowerErr (js ''networkerror'')
               \<or> str_includes lowerErr (js ''closed'')
               \<or> str_includes lowerErr (js ''aborted'')
               \<or> str_includes lowerErr (js ''entity was not found'')
               \<or> str_includes lowerErr (js ''connection failed'')
               \<or> str_includes lowerErr (js ''undefined'')
            then reset_connection s
            else reset_connection (s\<lparr>error := Some msg_connection_error\<rparr>)))"

section \<open>Session lifecycle\<close>

text \<open>
  \<open>cleanupAudioAndSession\<close>, taken as one step: capture graph, stream, session, audio
  contexts, then the active sources.
\<close>

definition cleanupAudioAndSession :: "state \<Rightarrow> state" where
  "cleanupAudioAndSession s =
     (let s1 = s\<lparr>processorRef := False\<rparr>;
          s2 = s1\<lparr>sourceRef := False\<rparr>;
          s3 = s2\<lparr>streamRef := None\<rparr>;
          s4 = s3\<lparr>activeSessionRef := None\<rparr>;
          s5 = s4\<lparr>audioContextInput := False, audioContextOutput := False\<rparr>
      in stop_all_sources s5)"

text \<open>
  \<open>connect\<close> up to the request for the microphone: busy guard, online check, the new
  session id (\<open>Date.now()\<close>, here \<open>now\<close>), cleanup, the two audio contexts.
\<close>

definition connect :: "nat \<Rightarrow> bool \<Rightarrow> state \<Rightarrow> state" where
  "connect now onLine s =
     (if isBusy s then s
      else
        (let s1 = s\<lparr>isBusy := True\<rparr>
         in if \<not> onLine then s1\<lparr>error := Some msg_no_internet, isBusy := False\<rparr>
            else
              (let s2 = s1\<lparr>currentSessionIdRef := now\<rparr>;
                   s3 = s2\<lparr>error := None\<rparr>;
                   s4 = cleanupAudioAndSession s3
               in s4\<lparr>audioContextInput := True, audioContextOutput := True\<rparr>)))"

text \<open>The resumption of \<open>connect\<close> after \<open>getUserMedia\<close> gave a stream.\<close>

definition connect_mic_granted :: "nat \<Rightarrow> nat \<Rightarrow> state \<Rightarrow> state" where
  "connect_mic_granted sessionId stream s =
     (if currentSessionIdRef s \<noteq> sessionId then s\<lparr>isBusy := False\<rparr>
      else s\<lparr>streamRef := Some stream\<rparr>)"

text \<open>The resumption after \<open>sessionPromise\<close> resolved, with the \<open>finally\<close> block.\<close>

definition connect_session_ready :: "nat \<Rightarrow> nat \<Rightarrow> state \<Rightarrow> state" where
  "connect_session_ready sessionId session s =
     (if currentSessionIdRef s \<noteq> sessionId then s
      else s\<lparr>activeSessionRef := Some session, isBusy := False\<rparr>)"

text \<open>The \<open>catch\<close> block of \<open>connect\<close> on an error with text \<open>msg\<close>, with the \<open>finally\<close> block.\<close>

definition connect_catch :: "lowering \<Rightarrow> nat \<Rightarrow> jsstring \<Rightarrow> state \<Rightarrow> state" where
  "connect_catch toLowerCase sessionId msg s =
     (let s1 =
        (if currentSessionIdRef s = sessionId
         then
           (let s' =
              (if str_includes (toLowerCase msg) (js ''unavailable'')
                  \<or> str_includes msg (js ''503'')
               then s\<lparr>error := Some msg_connect_busy\<rparr>
               else if \<not> str_includes (toLowerCase msg) (js ''aborted'')
               then s\<lparr>error := Some msg_connection_failed\<rparr>
               else s)
            in s'\<lparr>isConnected := False\<rparr>)
         else s)
      in if currentSessionIdRef s1 = sessionId then s1\<lparr>isBusy := False\<rparr> else s1)"

definition disconnect :: "state \<Rightarrow> state" where
  "disconnect s =
     (if isBusy s then s
      else
        (let s1 = s\<lparr>isBusy := True\<rparr>;
             s2 = s1\<lparr>currentSessionIdRef := 0\<rparr>;
             s3 = cleanupAudioAndSession s2
         in s3\<lparr>isConnected := False, isSpeaking := False, volume := Some 0, isBusy := False\<rparr>))"

section \<open>Events\<close>

text \<open>
  The callbacks a connect attempt registers; each closes over the \<open>sessionId\<close> of the
  attempt.
\<close>

datatype callback =
  OnOpen
  | OnMessage nat real server_message
  | OnClose
  | OnError error_signal
  | AudioProcess bool "real list"
  | SendFrame "int list"
  | MicGranted nat
  | SessionReady nat
  | ConnectFailed jsstring

fun invoke :: "lowering \<Rightarrow> nat \<Rightarrow> callback \<Rightarrow> state \<Rightarrow> state" where
  "invoke toLowerCase sessionId OnOpen s = onopen sessionId s"
| "invoke toLowerCase sessionId (OnMessage now currentTime m) s = onmessage toLowerCase sessionId now currentTime m s"
| "invoke toLowerCase sessionId OnClose s = onclose sessionId s"
| "invoke toLowerCase sessionId (OnError e) s = onerror toLowerCase sessionId e s"
| "invoke toLowerCase sessionId (AudioProcess onLine inputData) s = onaudioprocess sessionId onLine inputData s"
| "invoke toLowerCase sessionId (SendFrame frame) s = send_continuation sessionId frame s"
| "invoke toLowerCase sessionId (MicGranted stream) s = connect_mic_granted sessionId stream s"
| "invoke toLowerCase sessionId (SessionReady session) s = connect_session_ready sessionId session s"
| "invoke toLowerCase sessionId (ConnectFailed msg) s = connect_catch toLowerCase sessionId msg s"

datatype event =
  Connect nat bool
  | Disconnect
  | Callback nat callback
  | PendingSend bool
  | SourceEnded playback_source
  | SpeakingTimeout

fun step :: "lowering \<Rightarrow> event \<Rightarrow> state \<Rightarrow> state" where
  "step toLowerCase (Connect now onLine) s = connect now onLine s"
| "step toLowerCase Disconnect s = disconnect s"
| "step toLowerCase (Callback sessionId cb) s = invoke toLowerCase sessionId cb s"
| "step toLowerCase (PendingSend resolved) s = run_pending_send resolved s"
| "step toLowerCase (SourceEnded src) s = source_onended src s"
| "step toLowerCase SpeakingTimeout s = speaking_timeout s"

fun run :: "lowering \<Rightarrow> event list \<Rightarrow> state \<Rightarrow> state" where
  "run toLowerCase [] s = s"
| "run toLowerCase (ev # evs) s = run toLowerCase evs (step toLowerCase ev s)"

text \<open>
  The clock readings of the connect attempts of a run, in order, and the session ids the
  run mints: \<open>connect\<close> reads \<open>Date.now()\<close> into the session id exactly when it has
  passed the busy guard and the online check.
\<close>

fun connect_readings :: "event list \<Rightarrow> nat list" where
  "connect_readings [] = []"
| "connect_readings (Connect now onLine # evs) = now # connect_readings evs"
| "connect_readings (ev # evs) = connect_readings evs"

fun minted :: "lowering \<Rightarrow> event list \<Rightarrow> state \<Rightarrow> nat list" where
  "minted toLowerCase [] s = []"
| "minted toLowerCase (Connect now onLine # evs) s =
     (if \<not> isBusy s \<and> onLine then [now] else [])
       @ minted toLowerCase evs (step toLowerCase (Connect now onLine) s)"
| "minted toLowerCase (ev # evs) s = minted toLowerCase evs (step toLowerCase ev s)"

section \<open>Inputs and states used in the statements\<close>

text \<open>Messages that carry one model-role fragment, one user-role fragment, or only turn-complete.\<close>

definition output_fragment :: "jsstring \<Rightarrow> server_message" where
  "output_fragment txt =
     \<lparr>inputTranscription = None, outputTranscription = Some txt, turnComplete = False,
      interrupted = False, audioData = None\<rparr>"

definition input_fragment :: "jsstring \<Rightarrow> server_message" where
  "input_fragment txt =
     \<lparr>inputTranscription = Some txt, outputTranscription = None, turnComplete = False,
      interrupted = False, audioData = None\<rparr>"

definition turn_complete_signal :: server_message where
  "turn_complete_signal =
     \<lparr>inputTranscription = None, outputTranscription = None, turnComplete = True,
      interrupted = False, audioData = None\<rparr>"

text \<open>
  A session with id 7 in which the model is speaking: two sources are scheduled, the
  cursor stands at 5 and the model-role accumulator holds \<open>abc\<close>.
\<close>

definition playing_state :: state where
  "playing_state =
     initial_state\<lparr>currentSessionIdRef := 7, isConnected := True, isSpeaking := True,
       nextStartTime := 5, currentOutputTrans := js ''abc'',
       audioSources := [\<lparr>scheduledStart = 3, durationSeconds = 1\<rparr>,
                        \<lparr>scheduledStart = 4, durationSeconds = 1\<rparr>]\<rparr>"

text \<open>A session with id 7 that is open, with the model speaking and nothing scheduled.\<close>

definition session7 :: state where
  "session7 =
     initial_state\<lparr>currentSessionIdRef := 7, isConnected := True, isSpeaking := True,
       activeSessionRef := Some 1\<rparr>"

text \<open>
  A first session: a connect at clock reading 1000 that gets the microphone and the
  session, then a disconnect.
\<close>

definition first_session :: "event list" where
  "first_session =
     [Connect 1000 True, Callback 1000 (MicGranted 1), Callback 1000 (SessionReady 1), Disconnect]"

text \<open>A message that carries only the interruption signal.\<close>

definition interrupted_signal :: server_message where
  "interrupted_signal =
     \<lparr>inputTranscription = None, outputTranscription = None, turnComplete = False,
      interrupted = True, audioData = None\<rparr>"

text \<open>
  What a user of the component can observe of a state: the connected and speaking
  flags, the volume, the messages, the notice, the active session handle, and the audio
  scheduling (cursor, active sources, stopped sources) with the frames sent.
\<close>

definition observable_state ::
  "state \<Rightarrow> bool \<times> bool \<times> real option \<times> message list \<times> jsstring option \<times> nat option
            \<times> real \<times> playback_source list \<times> playback_source list \<times> int list list" where
  "observable_state s =
     (isConnected s, isSpeaking s, volume s, messages s, error s, activeSessionRef s,
      nextStartTime s, audioSources s, stopped s, sent s)"

section \<open>The error table of the specification\<close>

text \<open>
  The three classes and the table, in the specification's words: the text is lowered
  (by the platform's function, a parameter here as in the handlers),
  then searched for the busy patterns, then for the suppressed patterns; anything else
  is fatal.  The list of suppressed patterns is a parameter.  \<open>notice_after\<close> is the
  notice each class leaves: a retryable notice, the notice as it was, a generic notice.
\<close>

datatype error_class = Busy | TransientSuppressed | Fatal

definition busy_patterns :: "jsstring list" where
  "busy_patterns = [js ''service is currently unavailable'', js ''503'']"

definition claimed_suppressed_patterns :: "jsstring list" where
  "claimed_suppressed_patterns =
     [js ''network error'', js ''closed'', js ''aborted'', js ''entity was not found'',
      js ''connection failed'', js ''undefined'']"

definition classify_by :: "lowering \<Rightarrow> jsstring list \<Rightarrow> jsstring \<Rightarrow> error_class" where
  "classify_by toLowerCase suppressed errMsg =
     (let lowerErr = toLowerCase errMsg
      in if list_ex (str_includes lowerErr) busy_patterns then Busy
         else if list_ex (str_includes lowerErr) suppressed then TransientSuppressed
         else Fatal)"

definition notice_after :: "error_class \<Rightarrow> jsstring option \<Rightarrow> jsstring option" where
  "notice_after c before =
     (case c of Busy \<Rightarrow> Some msg_server_busy
              | TransientSuppressed \<Rightarrow> before
              | Fatal \<Rightarrow> Some msg_connection_error)"

section \<open>Evaluation rules\<close>

lemmas string_eval =
  js_def ascii_toLowerCase_def lower_unit_def startsWith_def trim_def is_js_whitespace_def

lemmas stop_phrase_eval =
  is_stop_command_def stop_phrase_thai_def stop_phrase_roman_def stop_phrase_plain_def

lemmas transcript_defs =
  handleTranscription_def handle_output_def handle_input_def handle_turn_complete_def
  updateMessageState_def

section \<open>Transcript of one model turn\<close>

text \<open>
  C3 (as stated): the fragments \<open>na\<close>, \<open>namo\<close>, \<open>namo buddhaya\<close> for the model role and
  then turn-complete leave one complete model message whose text is \<open>namo buddhaya\<close>.
  The handler appends every fragment to the accumulator, so from the initial state the
  text of the one message is \<open>nanamonamo buddhaya\<close>, not \<open>namo buddhaya\<close>.
\<close>

theorem model_turn_text_counterexample:
  "messages (handleTranscription ascii_toLowerCase 4 turn_complete_signal
      (handleTranscription ascii_toLowerCase 3 (output_fragment (js ''namo buddhaya''))
        (handleTranscription ascii_toLowerCase 2 (output_fragment (js ''namo''))
          (handleTranscription ascii_toLowerCase 1 (output_fragment (js ''na'')) initial_state))))
     = [\<lparr>msg_id = 1, role = Model, msg_text = js ''nanamonamo buddhaya'', isComplete = True\<rparr>]
   \<and> js ''nanamonamo buddhaya'' \<noteq> js ''namo buddhaya''"
  by (simp add: transcript_defs output_fragment_def turn_complete_signal_def
      initial_state_def Let_def string_eval)

text \<open>
  C3 (amended): when both accumulators are empty and the last message is not a pending
  model message, the fragments \<open>na\<close>, \<open>namo\<close>, \<open>namo buddhaya\<close> for the model role and
  then turn-complete add exactly one message.  It is created by the first fragment,
  every later fragment rewrites it in place, its final text is the concatenation of the
  fragments in arrival order, \<open>nanamonamo buddhaya\<close>, and turn-complete marks it complete.
\<close>

theorem model_turn_single_message:
  assumes "currentInputTrans s = []" and "currentOutputTrans s = []"
    and "messages s = [] \<or> role (last (messages s)) \<noteq> Model \<or> isComplete (last (messages s))"
  shows "let s1 = handleTranscription toLowerCase n1 (output_fragment (js ''na'')) s;
             s2 = handleTranscription toLowerCase n2 (output_fragment (js ''namo'')) s1;
             s3 = handleTranscription toLowerCase n3 (output_fragment (js ''namo buddhaya'')) s2;
             s4 = handleTranscription toLowerCase n4 turn_complete_signal s3
         in messages s1 = messages s @
              [\<lparr>msg_id = n1, role = Model, msg_text = js ''na'', isComplete = False\<rparr>]
          \<and> messages s2 = messages s @
              [\<lparr>msg_id = n1, role = Model, msg_text = js ''nanamo'', isComplete = False\<rparr>]
          \<and> messages s3 = messages s @
              [\<lparr>msg_id = n1, role = Model, msg_text = js ''nanamonamo buddhaya'',
                isComplete = False\<rparr>]
          \<and> messages s4 = messages s @
              [\<lparr>msg_id = n1, role = Model, msg_text = js ''nanamonamo buddhaya'',
                isComplete = True\<rparr>]"
  using assms
  by (auto simp add: transcript_defs output_fragment_def turn_complete_signal_def
      Let_def string_eval)

theorem model_turn_single_message_witness:
  "currentInputTrans initial_state = [] \<and> currentOutputTrans initial_state = []
   \<and> messages initial_state = []
   \<and> messages (handleTranscription ascii_toLowerCase 4 turn_complete_signal
        (handleTranscription ascii_toLowerCase 3 (output_fragment (js ''namo buddhaya''))
          (handleTranscription ascii_toLowerCase 2 (output_fragment (js ''namo''))
            (handleTranscription ascii_toLowerCase 1 (output_fragment (js ''na'')) initial_state))))
      = [\<lparr>msg_id = 1, role = Model, msg_text = js ''nanamonamo buddhaya'', isComplete = True\<rparr>]"
  using model_turn_single_message [of initial_state ascii_toLowerCase 1 2 3 4]
  by (simp add: initial_state_def Let_def)

section \<open>Pending messages under interleaving\<close>

text \<open>
  C7: at most one message per role is incomplete at any time.  \<open>updateMessageState\<close>
  extends a pending message only when it is the last of the list.  Evaluated from the
  initial state on a user fragment \<open>a\<close>, a model fragment \<open>b\<close> and a user fragment \<open>c\<close>:
  the first user message stays pending and a second pending user message is appended.
\<close>

theorem interleaved_fragments_two_pending:
  "messages (handleTranscription ascii_toLowerCase 3 (input_fragment (js ''c''))
      (handleTranscription ascii_toLowerCase 2 (output_fragment (js ''b''))
        (handleTranscription ascii_toLowerCase 1 (input_fragment (js ''a'')) initial_state)))
   = [\<lparr>msg_id = 1, role = User, msg_text = js ''a'', isComplete = False\<rparr>,
      \<lparr>msg_id = 2, role = Model, msg_text = js ''b'', isComplete = False\<rparr>,
      \<lparr>msg_id = 3, role = User, msg_text = js ''ac'', isComplete = False\<rparr>]"
  by (simp add: transcript_defs input_fragment_def output_fragment_def initial_state_def
      stop_phrase_eval Let_def string_eval)

section \<open>Local stop phrase\<close>

text \<open>
  C4: a stop phrase in the user-role accumulator stops and removes every active source,
  resets the cursor to zero, clears the model-role accumulator and clears the speaking
  flag.  Evaluated on the user fragment \<open>titthatu\<close> in \<open>playing_state\<close>: the sources
  are stopped and removed and the speaking flag is cleared, but the cursor is still 5
  and the model-role accumulator still holds \<open>abc\<close>.
\<close>

theorem stop_phrase_keeps_cursor_and_accumulator:
  "audioSources (handleTranscription ascii_toLowerCase 1 (input_fragment (js ''titthatu'')) playing_state) = []
   \<and> stopped (handleTranscription ascii_toLowerCase 1 (input_fragment (js ''titthatu'')) playing_state)
       = audioSources playing_state
   \<and> isSpeaking (handleTranscription ascii_toLowerCase 1 (input_fragment (js ''titthatu'')) playing_state) = False
   \<and> nextStartTime (handleTranscription ascii_toLowerCase 1 (input_fragment (js ''titthatu'')) playing_state) = 5
   \<and> currentOutputTrans (handleTranscription ascii_toLowerCase 1 (input_fragment (js ''titthatu'')) playing_state)
       = js ''abc''"
  by (simp add: transcript_defs input_fragment_def playing_state_def initial_state_def
      stop_phrase_eval local_stop_def stop_all_sources_def Let_def string_eval)

section \<open>Echo guard\<close>

text \<open>
  C2 (as stated): a capture tick while sources are active still updates the volume.
  In \<open>playing_state\<close> the volume is 0 and a full-scale buffer measures 1, yet after the
  tick the volume is still 0.
\<close>

theorem echo_guard_volume_counterexample:
  "audioSources playing_state \<noteq> [] \<and> currentSessionIdRef playing_state = 7
   \<and> volume playing_state = Some 0 \<and> volume_meter [1, 1] = Some 1
   \<and> volume (onaudioprocess 7 True [1, 1] playing_state) = Some 0"
  by (simp add: playing_state_def initial_state_def onaudioprocess_def volume_meter_def
      sum_squares_def)

text \<open>
  C2 (amended): a capture tick under the current session id while at least one source
  is active changes nothing: the buffer is not measured, the volume keeps its value, no
  frame is queued for the transport and none is sent.
\<close>

theorem echo_guard_skips_tick:
  "currentSessionIdRef s = sessionId \<Longrightarrow> audioSources s \<noteq> [] \<Longrightarrow>
   onaudioprocess sessionId onLine inputData s = s"
  by (simp add: onaudioprocess_def)

theorem echo_guard_skips_tick_witness:
  "currentSessionIdRef playing_state = 7 \<and> audioSources playing_state \<noteq> []
   \<and> onaudioprocess 7 True [1, 1] playing_state = playing_state"
  using echo_guard_skips_tick [of playing_state 7 True "[1, 1]"]
  by (simp add: playing_state_def initial_state_def)

section \<open>Opening a session\<close>

text \<open>
  C10: when \<open>onopen\<close> fires under the session id that is still current, the message
  list becomes empty (and the connected flag is set), whatever it held before.
\<close>

theorem onopen_clears_messages:
  "currentSessionIdRef s = sessionId \<Longrightarrow>
   messages (onopen sessionId s) = [] \<and> isConnected (onopen sessionId s)"
  by (simp add: onopen_def Let_def)

theorem onopen_clears_messages_witness:
  "currentSessionIdRef
     (initial_state\<lparr>currentSessionIdRef := 7,
        messages := [\<lparr>msg_id = 1, role = User, msg_text = js ''a'', isComplete = True\<rparr>]\<rparr>) = 7
   \<and> messages (onopen 7
       (initial_state\<lparr>currentSessionIdRef := 7,
          messages := [\<lparr>msg_id = 1, role = User, msg_text = js ''a'', isComplete = True\<rparr>]\<rparr>)) = []"
  using onopen_clears_messages
    [of "initial_state\<lparr>currentSessionIdRef := 7,
        messages := [\<lparr>msg_id = 1, role = User, msg_text = js ''a'', isComplete = True\<rparr>]\<rparr>" 7]
  by simp

section \<open>Error classification\<close>

text \<open>
  C8 (as stated): an error text that contains none of the busy patterns and none of
  \<open>network error\<close>, \<open>closed\<close>, \<open>aborted\<close>, \<open>entity was not found\<close>,
  \<open>connection failed\<close>, \<open>undefined\<close> is fatal and sets the generic notice.  The text
  \<open>networkerror\<close> is fatal by that table, yet \<open>onerror\<close> sets no notice for it.
\<close>

theorem onerror_networkerror_counterexample:
  "classify_by ascii_toLowerCase claimed_suppressed_patterns
     (extract_errMsg (Primitive (js ''networkerror''))) = Fatal
   \<and> currentSessionIdRef session7 = 7
   \<and> error (onerror ascii_toLowerCase 7 (Primitive (js ''networkerror'')) session7) = None
   \<and> error (onerror ascii_toLowerCase 7 (Primitive (js ''networkerror'')) session7) \<noteq>
       notice_after (classify_by ascii_toLowerCase claimed_suppressed_patterns
                       (extract_errMsg (Primitive (js ''networkerror'')))) (error session7)"
  by (simp add: classify_by_def busy_patterns_def claimed_suppressed_patterns_def
      onerror_def session7_def initial_state_def reset_connection_def notice_after_def Let_def
      js_def ascii_toLowerCase_def lower_unit_def startsWith_def)

text \<open>
  C8 (amended): for every error signal delivered under the current session id, the
  notice after \<open>onerror\<close> is the one of the class of the extracted text, where the
  suppressed patterns are the six of the claim and \<open>networkerror\<close>: the retryable notice
  for Busy, the notice unchanged for TransientSuppressed, the generic notice for Fatal.
  In all three classes the connected and the speaking flag are cleared and the active
  session handle is dropped.
\<close>

theorem onerror_classes:
  assumes "currentSessionIdRef s = sessionId"
  shows "error (onerror toLowerCase sessionId e s) =
           notice_after
             (classify_by toLowerCase (claimed_suppressed_patterns @ [js ''networkerror''])
                           (extract_errMsg e)) (error s)
       \<and> \<not> isConnected (onerror toLowerCase sessionId e s)
       \<and> \<not> isSpeaking (onerror toLowerCase sessionId e s)
       \<and> activeSessionRef (onerror toLowerCase sessionId e s) = None"
  using assms
  by (auto simp add: onerror_def classify_by_def notice_after_def busy_patterns_def
      claimed_suppressed_patterns_def reset_connection_def Let_def)

theorem onerror_classes_witness:
  "currentSessionIdRef session7 = 7
   \<and> error (onerror ascii_toLowerCase 7 (ErrorInstance (js ''Service is currently unavailable, try later'')) session7)
       = Some msg_server_busy
   \<and> error (onerror ascii_toLowerCase 7 (Primitive (js ''entity was not found'')) session7) = None
   \<and> error (onerror ascii_toLowerCase 7 (Primitive (js ''totally unknown blob'')) session7)
       = Some msg_connection_error
   \<and> \<not> isConnected (onerror ascii_toLowerCase 7 (Primitive (js ''entity was not found'')) session7)"
  using onerror_classes [of session7 7 ascii_toLowerCase "ErrorInstance (js ''Service is currently unavailable, try later'')"]
    onerror_classes [of session7 7 ascii_toLowerCase "Primitive (js ''entity was not found'')"]
    onerror_classes [of session7 7 ascii_toLowerCase "Primitive (js ''totally unknown blob'')"]
  by (simp add: classify_by_def notice_after_def busy_patterns_def claimed_suppressed_patterns_def
      session7_def initial_state_def Let_def js_def ascii_toLowerCase_def lower_unit_def startsWith_def)

section \<open>Volume meter\<close>

lemma foldl_squares: "foldl (\<lambda>acc x. acc + x * x) a xs = a + (\<Sum>x\<leftarrow>xs. x * x)" for a :: real
  by (induction xs arbitrary: a) simp_all

lemma sum_squares_nonneg: "0 \<le> sum_squares xs"
  unfolding sum_squares_def foldl_squares
  by (induction xs) simp_all

lemma sum_squares_silence: "\<forall>x\<in>set xs. x = 0 \<Longrightarrow> sum_squares xs = 0"
  by (induction xs) (simp_all add: sum_squares_def foldl_squares)

lemma sum_squares_full_scale: "\<forall>x\<in>set xs. \<bar>x\<bar> = 1 \<Longrightarrow> sum_squares xs = real (length xs)"
proof (induction xs)
  case Nil
  then show ?case by (simp add: sum_squares_def)
next
  case (Cons x xs)
  then have "x * x = 1" by (metis abs_mult_self_eq list.set_intros(1) mult_1)
  with Cons show ?case by (simp add: sum_squares_def foldl_squares)
qed

text \<open>
  C9: on a capture tick that passes both guards (current session id, no active source)
  with a non-empty sample buffer, the volume is a number in \<open>[0,1]\<close> whatever the
  samples are; it is 0 when every sample is 0 and 1 when every sample has magnitude 1.
  Samples and arithmetic are over the real numbers.
\<close>

theorem volume_in_unit_interval:
  assumes "currentSessionIdRef s = sessionId" and "audioSources s = []" and "inputData \<noteq> []"
  shows "\<exists>v. volume (onaudioprocess sessionId onLine inputData s) = Some v
           \<and> 0 \<le> v \<and> v \<le> 1
           \<and> ((\<forall>x\<in>set inputData. x = 0) \<longrightarrow> v = 0)
           \<and> ((\<forall>x\<in>set inputData. \<bar>x\<bar> = 1) \<longrightarrow> v = 1)"
proof -
  let ?v = "min (sqrt (sum_squares inputData / real (length inputData)) * 10) 1"
  have vol: "volume (onaudioprocess sessionId onLine inputData s) = Some ?v"
    using assms by (simp add: onaudioprocess_def volume_meter_def Let_def)
  have "0 \<le> sum_squares inputData / real (length inputData)"
    using sum_squares_nonneg by simp
  then have lo: "0 \<le> ?v" by simp
  have hi: "?v \<le> 1" by simp
  have zero: "?v = 0" if "\<forall>x\<in>set inputData. x = 0"
    using sum_squares_silence [OF that] by simp
  have one: "?v = 1" if "\<forall>x\<in>set inputData. \<bar>x\<bar> = 1"
    using sum_squares_full_scale [OF that] assms(3) by simp
  from vol lo hi zero one show ?thesis by blast
qed

theorem volume_in_unit_interval_witness:
  "currentSessionIdRef session7 = 7 \<and> audioSources session7 = [] \<and> [1, - 1, 1 :: real] \<noteq> []
   \<and> volume (onaudioprocess 7 True [1, - 1, 1] session7) = Some 1"
  using volume_in_unit_interval [of session7 7 "[1, - 1, 1]" True]
  by (auto simp add: session7_def initial_state_def)

section \<open>Scheduler cursor\<close>

lemma nextStartTime_handle_input:
  "nextStartTime (handle_input toLowerCase now txt s) = nextStartTime s"
  by (simp add: handle_input_def local_stop_def stop_all_sources_def Let_def)

lemma nextStartTime_handle_output:
  "nextStartTime (handle_output now txt s) = nextStartTime s"
  by (simp add: handle_output_def Let_def)

lemma nextStartTime_handle_turn_complete:
  "nextStartTime (handle_turn_complete now s) = nextStartTime s"
  by (simp add: handle_turn_complete_def Let_def)

lemma nextStartTime_handleTranscription:
  "nextStartTime (handleTranscription toLowerCase now m s) = nextStartTime s"
  by (simp add: handleTranscription_def Let_def nextStartTime_handle_input
      nextStartTime_handle_output nextStartTime_handle_turn_complete split: option.splits)

lemma decodeAudioData_nonneg: "decodeAudioData bytes = Some d \<Longrightarrow> 0 \<le> d"
  by (auto simp add: decodeAudioData_def split: if_splits)

lemma playAudioChunk_resume_mono:
  "nextStartTime s \<le> nextStartTime (playAudioChunk_resume t chunk s)"
proof (cases chunk)
  case None
  then show ?thesis by (simp add: playAudioChunk_resume_def)
next
  case (Some bytes)
  show ?thesis
  proof (cases "decodeAudioData bytes")
    case None
    with Some show ?thesis by (simp add: playAudioChunk_resume_def)
  next
    case (Some d)
    then have "0 \<le> d" by (rule decodeAudioData_nonneg)
    with Some \<open>chunk = Some bytes\<close> show ?thesis
      by (simp add: playAudioChunk_resume_def Let_def max_def)
  qed
qed

lemma onmessage_lowers:
  assumes "nextStartTime (onmessage toLowerCase sid now t m s) < nextStartTime s"
  shows "currentSessionIdRef s = sid \<and> interrupted m"
proof (rule ccontr)
  assume neg: "\<not> (currentSessionIdRef s = sid \<and> interrupted m)"
  show False
  proof (cases "currentSessionIdRef s = sid")
    case False
    with assms show False by (simp add: onmessage_def)
  next
    case True
    with neg have ni: "\<not> interrupted m" by simp
    let ?s1 = "handleTranscription toLowerCase now m s"
    have eq1: "nextStartTime ?s1 = nextStartTime s" by (rule nextStartTime_handleTranscription)
    have "nextStartTime s \<le> nextStartTime (onmessage toLowerCase sid now t m s)"
    proof (cases "audioData m \<noteq> None \<and> audioContextOutput ?s1")
      case False
      with True ni eq1 show ?thesis by (auto simp add: onmessage_def Let_def)
    next
      case play: True
      have "nextStartTime (playAudioChunk_begin ?s1) = nextStartTime s"
        using eq1 by (simp add: playAudioChunk_begin_def)
      moreover have "nextStartTime (playAudioChunk_begin ?s1)
          \<le> nextStartTime (playAudioChunk_resume t (the (audioData m)) (playAudioChunk_begin ?s1))"
        by (rule playAudioChunk_resume_mono)
      ultimately show ?thesis using True ni play by (simp add: onmessage_def Let_def)
    qed
    with assms show False by simp
  qed
qed

lemma invoke_other_keeps_cursor:
  "(\<forall>now t m. cb \<noteq> OnMessage now t m) \<Longrightarrow> nextStartTime (invoke toLowerCase sid cb s) = nextStartTime s"
  by (cases cb)
     (simp_all add: onopen_def onclose_def onerror_def onaudioprocess_def
        send_continuation_def connect_mic_granted_def connect_session_ready_def
        connect_catch_def reset_connection_def Let_def)

lemma lifecycle_keeps_cursor:
  "nextStartTime (connect now onLine s) = nextStartTime s"
  "nextStartTime (disconnect s) = nextStartTime s"
  "nextStartTime (run_pending_send resolved s) = nextStartTime s"
  "nextStartTime (source_onended src s) = nextStartTime s"
  "nextStartTime (speaking_timeout s) = nextStartTime s"
  by (simp_all add: connect_def disconnect_def cleanupAudioAndSession_def stop_all_sources_def
      run_pending_send_def send_continuation_def source_onended_def speaking_timeout_def Let_def
      split: list.splits prod.splits)

text \<open>
  C6: every enqueue leaves the cursor at least where it was; a chunk that decodes to a
  buffer of duration \<open>d\<close> has \<open>0 \<le> d\<close> and sets the cursor to
  \<open>max currentTime cursor + d\<close>.  The \<open>interrupted\<close> branch sets the cursor to exactly
  zero.  Of all events of the component, only a message with the \<open>interrupted\<close> flag,
  delivered under the current session id, can leave the cursor lower than it found it;
  when such a message carries no audio the cursor is zero afterwards.  Times are real
  numbers.
\<close>

theorem scheduler_cursor_monotone:
  "nextStartTime s \<le> nextStartTime (playAudioChunk t chunk s)
   \<and> (chunk = Some bytes \<and> decodeAudioData bytes = Some d \<longrightarrow>
        0 \<le> d \<and> nextStartTime (playAudioChunk t chunk s) = max t (nextStartTime s) + d)
   \<and> nextStartTime (on_interrupted s) = 0
   \<and> (nextStartTime (step toLowerCase ev s) < nextStartTime s \<longrightarrow>
        (\<exists>sid now ct m. ev = Callback sid (OnMessage now ct m)
           \<and> currentSessionIdRef s = sid \<and> interrupted m))
   \<and> (currentSessionIdRef s = sid \<and> interrupted m \<and> audioData m = None \<longrightarrow>
        nextStartTime (onmessage toLowerCase sid now ct m s) = 0)"
proof (intro conjI impI)
  show "nextStartTime s \<le> nextStartTime (playAudioChunk t chunk s)"
    using playAudioChunk_resume_mono [of "playAudioChunk_begin s" t chunk]
    by (simp add: playAudioChunk_def playAudioChunk_begin_def)
next
  assume a: "chunk = Some bytes \<and> decodeAudioData bytes = Some d"
  then show "0 \<le> d" using decodeAudioData_nonneg by blast
  from a show "nextStartTime (playAudioChunk t chunk s) = max t (nextStartTime s) + d"
    by (simp add: playAudioChunk_def playAudioChunk_begin_def playAudioChunk_resume_def Let_def)
next
  show "nextStartTime (on_interrupted s) = 0"
    by (simp add: on_interrupted_def stop_all_sources_def)
next
  assume low: "nextStartTime (step toLowerCase ev s) < nextStartTime s"
  show "\<exists>sid now ct m. ev = Callback sid (OnMessage now ct m)
           \<and> currentSessionIdRef s = sid \<and> interrupted m"
  proof (cases ev)
    case (Callback sid cb)
    show ?thesis
    proof (cases "\<exists>now t m. cb = OnMessage now t m")
      case True
      then obtain now t m where cb: "cb = OnMessage now t m" by blast
      with low Callback have "nextStartTime (onmessage toLowerCase sid now t m s) < nextStartTime s" by simp
      then have "currentSessionIdRef s = sid \<and> interrupted m" by (rule onmessage_lowers)
      with Callback cb show ?thesis by blast
    next
      case False
      then have "nextStartTime (invoke toLowerCase sid cb s) = nextStartTime s"
        by (intro invoke_other_keeps_cursor) blast
      with low Callback show ?thesis by simp
    qed
  qed (use low in \<open>simp_all add: lifecycle_keeps_cursor\<close>)
next
  assume "currentSessionIdRef s = sid \<and> interrupted m \<and> audioData m = None"
  then show "nextStartTime (onmessage toLowerCase sid now ct m s) = 0"
    by (simp add: onmessage_def Let_def on_interrupted_def stop_all_sources_def)
qed

theorem scheduler_cursor_monotone_witness:
  "decodeAudioData [0, 0, 0, 0] = Some (1 / 12000)
   \<and> nextStartTime (playAudioChunk 1 (Some [0, 0, 0, 0]) playing_state) = 5 + 1 / 12000
   \<and> nextStartTime (step ascii_toLowerCase (Callback 7 (OnMessage 1 1 interrupted_signal)) playing_state)
       < nextStartTime playing_state
   \<and> nextStartTime (onmessage ascii_toLowerCase 7 1 1 interrupted_signal playing_state) = 0"
  using scheduler_cursor_monotone [where s = playing_state and t = 1
      and chunk = "Some [0, 0, 0, 0]" and bytes = "[0, 0, 0, 0]" and d = "1 / 12000"
      and ev = "Callback 7 (OnMessage 1 1 interrupted_signal)" and sid = 7
      and m = interrupted_signal and now = 1 and ct = 1
      and toLowerCase = ascii_toLowerCase]
  by (simp add: decodeAudioData_def SAMPLE_RATE_OUTPUT_def playing_state_def initial_state_def
      interrupted_signal_def)

section \<open>Stale callbacks\<close>

text \<open>
  C1: a callback registered by the connect attempt with session id \<open>T\<close> (\<open>onopen\<close>,
  \<open>onmessage\<close>, \<open>onclose\<close>, \<open>onerror\<close>, a capture tick, the continuation that sends a
  frame, the resumptions of \<open>connect\<close> after the microphone and after the session
  promise, and its \<open>catch\<close> block) that runs when the current session id is no longer
  \<open>T\<close> changes nothing observable.  The state it returns is the state it was given,
  except that the resumption after the microphone request clears the busy flag.
\<close>

theorem stale_callback_no_effect:
  assumes "currentSessionIdRef s \<noteq> T"
  shows "observable_state (invoke toLowerCase T cb s) = observable_state s
       \<and> (invoke toLowerCase T cb s)\<lparr>isBusy := isBusy s\<rparr> = s"
  using assms
  by (cases cb)
     (simp_all add: onopen_def onmessage_def onclose_def onerror_def onaudioprocess_def
        send_continuation_def connect_mic_granted_def connect_session_ready_def
        connect_catch_def observable_state_def)

theorem stale_callback_no_effect_witness:
  "currentSessionIdRef session7 \<noteq> 3
   \<and> invoke ascii_toLowerCase 3 OnClose session7 = session7
   \<and> invoke ascii_toLowerCase 3 (OnMessage 1 1 interrupted_signal) session7 = session7
   \<and> observable_state (invoke ascii_toLowerCase 3 (MicGranted 2) session7) = observable_state session7"
  using stale_callback_no_effect [of session7 3 ascii_toLowerCase OnClose]
    stale_callback_no_effect [of session7 3 ascii_toLowerCase "OnMessage 1 1 interrupted_signal"]
    stale_callback_no_effect [of session7 3 ascii_toLowerCase "MicGranted 2"]
  by (simp add: session7_def initial_state_def onclose_def onmessage_def)

section \<open>Session ids\<close>

lemma token_handleTranscription:
  "currentSessionIdRef (handleTranscription L now m s) = currentSessionIdRef s"
  by (simp add: handleTranscription_def handle_input_def handle_output_def
      handle_turn_complete_def local_stop_def stop_all_sources_def Let_def split: option.splits)

lemma token_playAudioChunk_resume:
  "currentSessionIdRef (playAudioChunk_resume t chunk s) = currentSessionIdRef s"
  by (simp add: playAudioChunk_resume_def Let_def split: option.splits)

lemma token_onmessage:
  "currentSessionIdRef (onmessage L sid now t m s) = currentSessionIdRef s"
  by (simp add: onmessage_def Let_def token_handleTranscription token_playAudioChunk_resume
      playAudioChunk_begin_def on_interrupted_def stop_all_sources_def)

lemma token_invoke: "currentSessionIdRef (invoke L sid cb s) = currentSessionIdRef s"
  by (cases cb)
     (simp_all add: token_onmessage onopen_def onclose_def onerror_def onaudioprocess_def
        send_continuation_def connect_mic_granted_def connect_session_ready_def
        connect_catch_def reset_connection_def Let_def)

lemma token_connect:
  "currentSessionIdRef (connect now onLine s) =
     (if \<not> isBusy s \<and> onLine then now else currentSessionIdRef s)"
  by (simp add: connect_def cleanupAudioAndSession_def stop_all_sources_def Let_def)

lemma token_disconnect:
  "currentSessionIdRef (disconnect s) = (if isBusy s then currentSessionIdRef s else 0)"
  by (simp add: disconnect_def cleanupAudioAndSession_def stop_all_sources_def Let_def)

lemma token_other:
  "currentSessionIdRef (run_pending_send resolved s) = currentSessionIdRef s"
  "currentSessionIdRef (source_onended src s) = currentSessionIdRef s"
  "currentSessionIdRef (speaking_timeout s) = currentSessionIdRef s"
  by (simp_all add: run_pending_send_def send_continuation_def source_onended_def
      speaking_timeout_def Let_def split: list.splits prod.splits)

lemma run_append: "run L (xs @ ys) s = run L ys (run L xs s)"
  by (induction xs arbitrary: s) simp_all

lemma minted_append: "minted L (xs @ ys) s = minted L xs s @ minted L ys (run L xs s)"
  by (induction L xs s rule: minted.induct) simp_all

lemma connect_readings_append:
  "connect_readings (xs @ ys) = connect_readings xs @ connect_readings ys"
  by (induction xs rule: connect_readings.induct) simp_all

lemma minted_readings: "set (minted L evs s) \<subseteq> set (connect_readings evs)"
  by (induction L evs s rule: minted.induct) auto

lemma minted_sorted:
  "sorted_wrt (<) (connect_readings evs) \<Longrightarrow> sorted_wrt (<) (minted L evs s)"
proof (induction L evs s rule: minted.induct)
  case (2 L now onLine evs s)
  then have "\<forall>x\<in>set (minted L evs (step L (Connect now onLine) s)). now < x"
    using minted_readings by fastforce
  with 2 show ?case by (simp add: sorted_wrt_append)
qed simp_all

lemma token_run:
  "currentSessionIdRef (run L evs s) = currentSessionIdRef s
   \<or> currentSessionIdRef (run L evs s) = 0
   \<or> currentSessionIdRef (run L evs s) \<in> set (minted L evs s)"
proof (induction evs arbitrary: s)
  case Nil
  then show ?case by simp
next
  case (Cons ev evs)
  from Cons [of "step L ev s"] show ?case
    by (cases ev) (auto simp add: token_connect token_disconnect token_invoke token_other
        split: if_splits)
qed

text \<open>
  C5 (as stated): every mint and every invalidation by \<open>disconnect\<close> makes the active id
  strictly greater than every id minted before.  After a connect at clock reading 1000
  has completed, \<open>disconnect\<close> sets the id to 0.
\<close>

theorem disconnect_token_counterexample:
  "currentSessionIdRef (run ascii_toLowerCase [Connect 1000 True, Callback 1000 (MicGranted 1),
       Callback 1000 (SessionReady 1)] initial_state) = 1000
   \<and> currentSessionIdRef (run ascii_toLowerCase [Connect 1000 True, Callback 1000 (MicGranted 1),
       Callback 1000 (SessionReady 1), Disconnect] initial_state) = 0"
  by (simp add: connect_def disconnect_def cleanupAudioAndSession_def stop_all_sources_def
      connect_mic_granted_def connect_session_ready_def initial_state_def Let_def)

text \<open>
  C5 (amended): the session id is the clock reading of the connect attempt.  After any
  run of events whose connect attempts read strictly increasing clock values, a connect
  that passes the busy guard while online mints its reading \<open>now\<close>: the active id
  becomes \<open>now\<close>, which is strictly greater than every id minted before, and the ids
  minted so far are strictly increasing.  A disconnect that passes the busy guard sets
  the active id to 0 instead.  At any time the active id is the one the run started
  with, 0, or one of the minted ids.
\<close>

theorem mint_above_all_previous:
  assumes "sorted_wrt (<) (connect_readings (evs @ [Connect now True]))"
    and "\<not> isBusy (run toLowerCase evs s)"
  shows "currentSessionIdRef (run toLowerCase (evs @ [Connect now True]) s) = now
       \<and> minted toLowerCase (evs @ [Connect now True]) s = minted toLowerCase evs s @ [now]
       \<and> (\<forall>T\<in>set (minted toLowerCase evs s). T < now)
       \<and> sorted_wrt (<) (minted toLowerCase (evs @ [Connect now True]) s)
       \<and> currentSessionIdRef (run toLowerCase (evs @ [Disconnect]) s) = 0
       \<and> (currentSessionIdRef (run toLowerCase evs s) = currentSessionIdRef s
          \<or> currentSessionIdRef (run toLowerCase evs s) = 0
          \<or> currentSessionIdRef (run toLowerCase evs s) \<in> set (minted toLowerCase evs s))"
proof -
  have mint: "minted toLowerCase (evs @ [Connect now True]) s = minted toLowerCase evs s @ [now]"
    using assms(2) by (simp add: minted_append)
  have srt: "sorted_wrt (<) (minted toLowerCase (evs @ [Connect now True]) s)"
    using assms(1) by (rule minted_sorted)
  from srt have above: "\<forall>T\<in>set (minted toLowerCase evs s). T < now"
    by (simp add: mint sorted_wrt_append)
  have tok: "currentSessionIdRef (run toLowerCase (evs @ [Connect now True]) s) = now"
    using assms(2) by (simp add: run_append token_connect)
  have dis: "currentSessionIdRef (run toLowerCase (evs @ [Disconnect]) s) = 0"
    using assms(2) by (simp add: run_append token_disconnect)
  from tok mint above srt dis token_run [of toLowerCase evs s] show ?thesis by blast
qed

theorem mint_above_all_previous_witness:
  "sorted_wrt (<) (connect_readings (first_session @ [Connect 2000 True]))
   \<and> \<not> isBusy (run ascii_toLowerCase first_session initial_state)
   \<and> minted ascii_toLowerCase first_session initial_state = [1000]
   \<and> currentSessionIdRef (run ascii_toLowerCase first_session initial_state) = 0
   \<and> currentSessionIdRef (run ascii_toLowerCase (first_session @ [Connect 2000 True]) initial_state)
       = 2000
   \<and> minted ascii_toLowerCase (first_session @ [Connect 2000 True]) initial_state = [1000, 2000]
   \<and> currentSessionIdRef (run ascii_toLowerCase (first_session @ [Disconnect]) initial_state) = 0"
  using mint_above_all_previous [of first_session 2000 ascii_toLowerCase initial_state]
  by (simp add: first_session_def connect_def disconnect_def cleanupAudioAndSession_def
      stop_all_sources_def connect_mic_granted_def connect_session_ready_def initial_state_def
      Let_def)

end
